theory Spec2Isabelle
  imports Complex_Main
begin

section \<open>Python values and exceptions\<close>

text \<open>
  The script \<^verbatim>\<open>WeatherProject_Done.py\<close> handles dynamically typed values: what
  \<^verbatim>\<open>response.json()\<close> returns is a tree of dicts, lists, strings and numbers, and Python's
  \<^verbatim>\<open>None\<close> is what the JSON literal \<^verbatim>\<open>null\<close> parses to. A dict is an association list
  read with \<^const>\<open>map_of\<close>. A float is carried as the real number it denotes: the script
  does no arithmetic on the numbers it reads, it only passes them on. A string is a list
  of bytes (UTF-8).
\<close>

datatype pyval =
    PNone
  | PBool bool
  | PInt int
  | PFloat real
  | PStr string
  | PList "pyval list"
  | PDict "(string \<times> pyval) list"

text \<open>The exceptions the modelled statements can raise.\<close>

datatype py_error =
    KeyError string
  | TypeError
  | JSONDecodeError
  | RequestException

text \<open>Sequencing of statements that may raise: the first exception ends the block.\<close>

fun bind_err :: "'e + 'a \<Rightarrow> ('a \<Rightarrow> 'e + 'b) \<Rightarrow> 'e + 'b" where
  "bind_err (Inl e) f = Inl e"
| "bind_err (Inr x) f = f x"

text \<open>
  \<^verbatim>\<open>obj[key]\<close> with a string key: a dict without the key raises \<^verbatim>\<open>KeyError\<close>; a list, a
  string, a number, a bool and \<^verbatim>\<open>None\<close> raise \<^verbatim>\<open>TypeError\<close>.
\<close>

fun subscript :: "pyval \<Rightarrow> string \<Rightarrow> py_error + pyval" where
  "subscript (PDict kvs) k = (case map_of kvs k of None \<Rightarrow> Inl (KeyError k) | Some v \<Rightarrow> Inr v)"
| "subscript _ k = Inl TypeError"

section \<open>The row mapper\<close>

text \<open>
  \<^verbatim>\<open>
  def get_row_from_response(response):
      city = response['name']
      cloudiness = response['clouds']['all']
      country = response['sys']['country']
      date = response['dt']
      humidity = response['main']['humidity']
      lat = response['coord']['lat']
      lng = response['coord']['lon']
      max_temp = response['main']['temp_max']
      wind_speed = response['wind']['speed']
      return {"City" : city, "Cloudiness": cloudiness, "Country" : country, "Date": date,
              "Humidity": humidity, "Lat": lat, "Lng": lng, "Max Temp": max_temp,
              "Wind Speed": wind_speed}
  \<close>
  The returned dict is the association list of its nine items, in the order of the literal.
\<close>

type_synonym row = "(string \<times> pyval) list"

definition get_row_from_response :: "pyval \<Rightarrow> py_error + row" where
  "get_row_from_response response =
     bind_err (subscript response ''name'') (\<lambda>city.
     bind_err (bind_err (subscript response ''clouds'') (\<lambda>d. subscript d ''all'')) (\<lambda>cloudiness.
     bind_err (bind_err (subscript response ''sys'') (\<lambda>d. subscript d ''country'')) (\<lambda>country.
     bind_err (subscript response ''dt'') (\<lambda>date.
     bind_err (bind_err (subscript response ''main'') (\<lambda>d. subscript d ''humidity'')) (\<lambda>humidity.
     bind_err (bind_err (subscript response ''coord'') (\<lambda>d. subscript d ''lat'')) (\<lambda>lat.
     bind_err (bind_err (subscript response ''coord'') (\<lambda>d. subscript d ''lon'')) (\<lambda>lng.
     bind_err (bind_err (subscript response ''main'') (\<lambda>d. subscript d ''temp_max'')) (\<lambda>max_temp.
     bind_err (bind_err (subscript response ''wind'') (\<lambda>d. subscript d ''speed'')) (\<lambda>wind_speed.
     Inr [(''City'', city), (''Cloudiness'', cloudiness), (''Country'', country),
          (''Date'', date), (''Humidity'', humidity), (''Lat'', lat), (''Lng'', lng),
          (''Max Temp'', max_temp), (''Wind Speed'', wind_speed)])))))))))"

text \<open>The synthetic response of the scenario, with the keys in the order the spec writes them.\<close>

definition cairns_response :: pyval where
  "cairns_response =
     PDict [(''name'', PStr ''Cairns''),
            (''clouds'', PDict [(''all'', PInt 75)]),
            (''sys'', PDict [(''country'', PStr ''AU'')]),
            (''dt'', PInt 1435658272),
            (''main'', PDict [(''humidity'', PInt 83), (''temp_max'', PFloat 295.37)]),
            (''coord'', PDict [(''lat'', PFloat (-16.92)), (''lon'', PFloat 145.77)]),
            (''wind'', PDict [(''speed'', PFloat 5.1)])]"

text \<open>The record the scenario expects for it.\<close>

definition cairns_row :: row where
  "cairns_row =
     [(''City'', PStr ''Cairns''), (''Cloudiness'', PInt 75), (''Country'', PStr ''AU''),
      (''Date'', PInt 1435658272), (''Humidity'', PInt 83), (''Lat'', PFloat (-16.92)),
      (''Lng'', PFloat 145.77), (''Max Temp'', PFloat 295.37), (''Wind Speed'', PFloat 5.1)]"

text \<open>
  The nine fields the mapper reads, as paths into the response, and what a response holds
  at a path: nothing where a field on the path is absent, that is where the value
  reached so far is not a dict or is a dict without the key.
\<close>

definition expected_fields :: "string list list" where
  "expected_fields =
     [[''name''], [''clouds'', ''all''], [''sys'', ''country''], [''dt''],
      [''main'', ''humidity''], [''coord'', ''lat''], [''coord'', ''lon''],
      [''main'', ''temp_max''], [''wind'', ''speed'']]"

fun field_at :: "pyval \<Rightarrow> string list \<Rightarrow> pyval option" where
  "field_at v [] = Some v"
| "field_at (PDict kvs) (k # ks) = (case map_of kvs k of None \<Rightarrow> None | Some v \<Rightarrow> field_at v ks)"
| "field_at _ (k # ks) = None"

text \<open>
  The response documented in the notes at the head of the script: the same nine fields as
  \<^const>\<open>cairns_response\<close>, among others the mapper does not read.
\<close>

definition documented_response :: pyval where
  "documented_response =
     PDict [(''coord'', PDict [(''lon'', PFloat 145.77), (''lat'', PFloat (-16.92))]),
            (''weather'', PList [PDict [(''id'', PInt 803), (''main'', PStr ''Clouds''),
               (''description'', PStr ''broken clouds''), (''icon'', PStr ''04n'')]]),
            (''base'', PStr ''cmc stations''),
            (''main'', PDict [(''temp'', PFloat 293.25), (''pressure'', PInt 1019),
               (''humidity'', PInt 83), (''temp_min'', PFloat 289.82),
               (''temp_max'', PFloat 295.37)]),
            (''wind'', PDict [(''speed'', PFloat 5.1), (''deg'', PInt 150)]),
            (''clouds'', PDict [(''all'', PInt 75)]),
            (''rain'', PDict [(''3h'', PInt 3)]),
            (''dt'', PInt 1435658272),
            (''sys'', PDict [(''type'', PInt 1), (''id'', PInt 8166),
               (''message'', PFloat 0.0166), (''country'', PStr ''AU''),
               (''sunrise'', PInt 1435610796), (''sunset'', PInt 1435650870)]),
            (''id'', PInt 2172797),
            (''name'', PStr ''Cairns''),
            (''cod'', PInt 200)]"

section \<open>The data frame\<close>






text \<open>
  A conversion for examples, after what the table library does with a column of numbers:
  a column in which every value is a float or an integer of 64 bits, one of them at least
  a float, is a column of 64-bit floats, and an integer in it is stored as the nearest
  such float (a tie goes to the even mantissa). Every other column keeps its values.
\<close>

definition float64_of_int :: "int \<Rightarrow> real" where
  "float64_of_int n =
     (let a = \<bar>n\<bar>;
          e = length (filter (\<lambda>k. 2 ^ (53 + k) \<le> a) [0..<11]);
          q = a div 2 ^ e;
          r = a mod 2 ^ e;
          q' = (if 2 * r > 2 ^ e \<or> (2 * r = 2 ^ e \<and> odd q) then q + 1 else q)
      in of_int (sgn n * q' * 2 ^ e))"









section \<open>The weather fetcher\<close>

text \<open>
  \<^verbatim>\<open>
  def get_city_data(city_name):
      encoded_city_name = city_name.replace(" ", "+")
      url = f"http://api.openweathermap.org/data/2.5/weather?appid={api_key}&q={encoded_city_name}"
      response = requests.get(url)
      if response.status_code != 200:
          return None
      else:
          return response.json()
  \<close>
  \<^verbatim>\<open>api_key\<close> is imported from a module that is not part of the sources, so it is a
  parameter. The network is a parameter too: \<^verbatim>\<open>requests.get\<close> takes the URL and the state
  of the world, and gives either an exception or a response, and the next state of the
  world. A response is its status code and what \<^verbatim>\<open>response.json()\<close> gives: the parsed
  body, or an exception where the body is not JSON.
\<close>

record response =
  status_code :: int
  json :: "py_error + pyval"

text \<open>\<^verbatim>\<open>s.replace(old, new)\<close> for \<^verbatim>\<open>old\<close> and \<^verbatim>\<open>new\<close> of one character each.\<close>

fun replace :: "char \<Rightarrow> char \<Rightarrow> string \<Rightarrow> string" where
  "replace old new [] = []"
| "replace old new (c # cs) = (if c = old then new else c) # replace old new cs"

definition encoded_city_name :: "string \<Rightarrow> string" where
  "encoded_city_name city_name = replace (CHR '' '') (CHR ''+'') city_name"

definition url :: "string \<Rightarrow> string \<Rightarrow> string" where
  "url api_key city_name =
     ''http://api.openweathermap.org/data/2.5/weather?appid='' @ api_key @ ''&q=''
       @ encoded_city_name city_name"

definition get_city_data ::
  "string \<Rightarrow> (string \<Rightarrow> 'w \<Rightarrow> (py_error + response) \<times> 'w) \<Rightarrow> string \<Rightarrow> 'w
     \<Rightarrow> (py_error + pyval) \<times> 'w" where
  "get_city_data api_key requests_get city_name w =
     (case requests_get (url api_key city_name) w of
        (Inl e, w') \<Rightarrow> (Inl e, w')
      | (Inr response, w') \<Rightarrow>
          if status_code response \<noteq> 200 then (Inr PNone, w') else (json response, w'))"



text \<open>
  A network for examples: the weather service knows Cairns alone and answers 404 with an
  error body for every other request; the state of the world counts the requests made.
\<close>

definition demo_requests_get :: "string \<Rightarrow> nat \<Rightarrow> (py_error + response) \<times> nat" where
  "demo_requests_get u n =
     (if u = url ''KEY'' ''cairns''
      then Inr \<lparr>status_code = 200, json = Inr cairns_response\<rparr>
      else Inr \<lparr>status_code = 404,
                json = Inr (PDict [(''cod'', PStr ''404''), (''message'', PStr ''city not found'')])\<rparr>,
      Suc n)"

text \<open>
  The spec speaks of whitespace where the script names the space character. Whitespace in
  the spec's sense, on ASCII, is what Python's \<^verbatim>\<open>str.isspace\<close> accepts: tab, line feed,
  vertical tab, form feed, carriage return, the four separators and the space.
\<close>

definition is_whitespace :: "char \<Rightarrow> bool" where
  "is_whitespace c =
     (c \<in> {CHR 0x09, CHR 0x0A, CHR 0x0B, CHR 0x0C, CHR 0x0D,
            CHR 0x1C, CHR 0x1D, CHR 0x1E, CHR 0x1F, CHR 0x20})"

definition whitespace_to_plus :: "string \<Rightarrow> string" where
  "whitespace_to_plus s = map (\<lambda>c. if is_whitespace c then CHR ''+'' else c) s"

section \<open>The coordinate sampler and the city resolver\<close>

text \<open>
  \<^verbatim>\<open>
  lats = np.random.uniform(low=-90.000, high=90.000, size=1500)
  lngs = np.random.uniform(low=-180.000, high=180.000, size=1500)
  lat_lngs = zip(lats, lngs)
  \<close>
  The generator of the numerical library is a parameter: it takes the bounds, the size and
  the state of the generator, and gives the sample and the next state.
\<close>

definition lat_lngs ::
  "(real \<Rightarrow> real \<Rightarrow> nat \<Rightarrow> 'g \<Rightarrow> real list \<times> 'g) \<Rightarrow> 'g \<Rightarrow> (real \<times> real) list \<times> 'g" where
  "lat_lngs uniform g =
     (case uniform (-90) 90 1500 g of (lats, g1) \<Rightarrow>
      case uniform (-180) 180 1500 g1 of (lngs, g2) \<Rightarrow>
        (zip lats lngs, g2))"

text \<open>
  A generator for examples: the state counts the draws made so far, and the draws
  alternate between the low bound and the middle of the range.
\<close>

definition demo_uniform :: "real \<Rightarrow> real \<Rightarrow> nat \<Rightarrow> nat \<Rightarrow> real list \<times> nat" where
  "demo_uniform low high n g =
     (map (\<lambda>k. if even (g + k) then low else (low + high) / 2) [0..<n], g + n)"

text \<open>
  \<^verbatim>\<open>
  cities = []
  for lat_lng in lat_lngs:
      city = citipy.nearest_city(lat_lng[0], lat_lng[1]).city_name
      if city not in cities:
          cities.append(city)
  \<close>
  The gazetteer lookup is a parameter, \<open>nearest_city_name lat lng\<close> standing for
  \<^verbatim>\<open>citipy.nearest_city(lat, lng).city_name\<close>. The loop is run from the cities found so far.
\<close>

fun identify_cities ::
  "(real \<Rightarrow> real \<Rightarrow> string) \<Rightarrow> string list \<Rightarrow> (real \<times> real) list \<Rightarrow> string list" where
  "identify_cities nearest_city_name cities [] = cities"
| "identify_cities nearest_city_name cities (lat_lng # rest) =
     (let city = nearest_city_name (fst lat_lng) (snd lat_lng)
      in if city \<notin> set cities
         then identify_cities nearest_city_name (cities @ [city]) rest
         else identify_cities nearest_city_name cities rest)"

text \<open>A gazetteer for examples: two cities, one for each hemisphere.\<close>

definition demo_nearest_city_name :: "real \<Rightarrow> real \<Rightarrow> string" where
  "demo_nearest_city_name lat lng = (if lat < 0 then ''cairns'' else ''oslo'')"

section \<open>Properties of the row mapper\<close>

text \<open>
  The mapper returns a record exactly when each of the nine fields is present, and the
  record then holds the nine values; any exception it raises is a \<^verbatim>\<open>KeyError\<close> or a
  \<^verbatim>\<open>TypeError\<close>.
\<close>

lemma bind_err_Inr_iff: "bind_err m f = Inr y \<longleftrightarrow> (\<exists>x. m = Inr x \<and> f x = Inr y)"
  by (cases m) simp_all

lemma bind_err_Inl_iff: "bind_err m f = Inl e \<longleftrightarrow> m = Inl e \<or> (\<exists>x. m = Inr x \<and> f x = Inl e)"
  by (cases m) simp_all

lemma subscript_Inr_iff: "subscript v k = Inr x \<longleftrightarrow> field_at v [k] = Some x"
  by (cases v) (simp_all split: option.splits)

lemma subscript2_Inr_iff:
  "bind_err (subscript v a) (\<lambda>d. subscript d b) = Inr x \<longleftrightarrow> field_at v [a, b] = Some x"
proof (cases v)
  case (PDict kvs)
  show ?thesis
  proof (cases "map_of kvs a")
    case None
    with PDict show ?thesis by simp
  next
    case (Some d)
    with PDict show ?thesis by (simp add: subscript_Inr_iff)
  qed
qed simp_all

lemma subscript_error: "subscript v k = Inl e \<Longrightarrow> e = TypeError \<or> e = KeyError k"
  by (cases v) (auto split: option.splits)

lemma subscript2_error:
  "bind_err (subscript v a) (\<lambda>d. subscript d b) = Inl e \<Longrightarrow> e = TypeError \<or> (\<exists>k. e = KeyError k)"
  by (auto simp: bind_err_Inl_iff dest: subscript_error)

lemma bind_subscript_Inr_iff:
  "bind_err (subscript v a) f = Inr y \<longleftrightarrow> (\<exists>x. field_at v [a] = Some x \<and> f x = Inr y)"
  by (simp add: bind_err_Inr_iff subscript_Inr_iff)

lemma bind_subscript2_Inr_iff:
  "bind_err (bind_err (subscript v a) (\<lambda>d. subscript d b)) f = Inr y \<longleftrightarrow>
     (\<exists>x. field_at v [a, b] = Some x \<and> f x = Inr y)"
  by (simp add: bind_err_Inr_iff [of "bind_err (subscript v a) (\<lambda>d. subscript d b)"]
      subscript2_Inr_iff)

lemma get_row_from_response_Inr_iff:
  "get_row_from_response response = Inr r \<longleftrightarrow>
     (\<exists>city cloudiness country date humidity lat lng max_temp wind_speed.
        field_at response [''name''] = Some city \<and>
        field_at response [''clouds'', ''all''] = Some cloudiness \<and>
        field_at response [''sys'', ''country''] = Some country \<and>
        field_at response [''dt''] = Some date \<and>
        field_at response [''main'', ''humidity''] = Some humidity \<and>
        field_at response [''coord'', ''lat''] = Some lat \<and>
        field_at response [''coord'', ''lon''] = Some lng \<and>
        field_at response [''main'', ''temp_max''] = Some max_temp \<and>
        field_at response [''wind'', ''speed''] = Some wind_speed \<and>
        r = [(''City'', city), (''Cloudiness'', cloudiness), (''Country'', country),
             (''Date'', date), (''Humidity'', humidity), (''Lat'', lat), (''Lng'', lng),
             (''Max Temp'', max_temp), (''Wind Speed'', wind_speed)])"
  unfolding get_row_from_response_def
  by (simp only: bind_subscript2_Inr_iff bind_subscript_Inr_iff sum.inject) blast

lemma get_row_from_response_error:
  "get_row_from_response response = Inl e \<Longrightarrow> e = TypeError \<or> (\<exists>k. e = KeyError k)"
  unfolding get_row_from_response_def
  by (auto simp: bind_err_Inl_iff dest: subscript_error)

text \<open>
  Claim C2. For the synthetic response with name "Cairns", clouds.all 75, sys.country "AU",
  dt 1435658272, main.humidity 83, main.temp_max 295.37, coord.lat -16.92, coord.lon 145.77
  and wind.speed 5.1, the row mapper returns exactly the record
  City "Cairns", Cloudiness 75, Country "AU", Date 1435658272, Humidity 83, Lat -16.92,
  Lng 145.77, Max Temp 295.37, Wind Speed 5.1.
\<close>

theorem get_row_from_response_cairns:
  "get_row_from_response cairns_response =
     Inr [(''City'', PStr ''Cairns''), (''Cloudiness'', PInt 75), (''Country'', PStr ''AU''),
          (''Date'', PInt 1435658272), (''Humidity'', PInt 83), (''Lat'', PFloat (-16.92)),
          (''Lng'', PFloat 145.77), (''Max Temp'', PFloat 295.37), (''Wind Speed'', PFloat 5.1)]"
  by (simp add: get_row_from_response_def cairns_response_def)

text \<open>
  Claim C6. For every response in which any one of the nine expected fields (name,
  clouds.all, sys.country, dt, main.humidity, coord.lat, coord.lon, main.temp_max,
  wind.speed) is absent, the row mapper fails with a missing-key or type error rather
  than producing a partial record.
\<close>

theorem get_row_from_response_missing_field:
  assumes "p \<in> set expected_fields" and "field_at response p = None"
  shows "\<exists>e. get_row_from_response response = Inl e \<and> (e = TypeError \<or> (\<exists>k. e = KeyError k))"
proof (cases "get_row_from_response response")
  case (Inl e)
  then show ?thesis using get_row_from_response_error by blast
next
  case (Inr r)
  then have "\<forall>q \<in> set expected_fields. field_at response q \<noteq> None"
    unfolding get_row_from_response_Inr_iff by (auto simp: expected_fields_def)
  with assms show ?thesis by blast
qed

theorem get_row_from_response_missing_field_witness:
  "[''clouds'', ''all''] \<in> set expected_fields \<and>
   field_at (PDict [(''name'', PStr ''Cairns''), (''clouds'', PInt 75)]) [''clouds'', ''all''] = None \<and>
   (\<exists>e. get_row_from_response (PDict [(''name'', PStr ''Cairns''), (''clouds'', PInt 75)]) = Inl e \<and>
        (e = TypeError \<or> (\<exists>k. e = KeyError k)))"
proof -
  have h1: "[''clouds'', ''all''] \<in> set expected_fields"
    by (simp add: expected_fields_def)
  have h2: "field_at (PDict [(''name'', PStr ''Cairns''), (''clouds'', PInt 75)]) [''clouds'', ''all''] = None"
    by simp
  show ?thesis
    by (rule conjI [OF h1 conjI [OF h2 get_row_from_response_missing_field [OF h1 h2]]])
qed

text \<open>
  Claim C10. The output of the row mapper depends only on the nine fields it reads: for any
  two responses that agree on name, clouds.all, sys.country, dt, main.humidity, coord.lat,
  coord.lon, main.temp_max and wind.speed, the mapped records are equal, whatever other
  fields either response has. The first response yields a record exactly when the second
  does, and it is the same record.
\<close>

theorem get_row_from_response_reads_expected_fields_only:
  assumes "\<forall>p \<in> set expected_fields. field_at response1 p = field_at response2 p"
  shows "get_row_from_response response1 = Inr r \<longleftrightarrow> get_row_from_response response2 = Inr r"
  using assms unfolding get_row_from_response_Inr_iff by (simp add: expected_fields_def)

theorem get_row_from_response_reads_expected_fields_only_witness:
  "get_row_from_response cairns_response = Inr cairns_row \<and>
   get_row_from_response documented_response = Inr cairns_row \<and>
   documented_response \<noteq> cairns_response"
proof -
  have h: "\<forall>p \<in> set expected_fields. field_at cairns_response p = field_at documented_response p"
    by (simp add: expected_fields_def cairns_response_def documented_response_def)
  have c: "get_row_from_response cairns_response = Inr cairns_row"
    by (simp add: get_row_from_response_def cairns_response_def cairns_row_def)
  have d: "get_row_from_response documented_response = Inr cairns_row"
    using get_row_from_response_reads_expected_fields_only [OF h, of cairns_row] c by blast
  have n: "documented_response \<noteq> cairns_response"
    by (simp add: cairns_response_def documented_response_def)
  show ?thesis by (rule conjI [OF c conjI [OF d n]])
qed

section \<open>Properties of the data frame\<close>









lemma float64_of_int_rounds: "float64_of_int 9007199254740993 = 9007199254740992"
  by code_simp








section \<open>Properties of the weather fetcher\<close>


lemma get_city_data_response:
  assumes "requests_get (url api_key city_name) w = (Inr r, w')"
  shows "get_city_data api_key requests_get city_name w =
           (if status_code r = 200 then json r else Inr PNone, w')"
  using assms by (simp add: get_city_data_def)

lemma get_city_data_exception:
  assumes "requests_get (url api_key city_name) w = (Inl e, w')"
  shows "get_city_data api_key requests_get city_name w = (Inl e, w')"
  using assms by (simp add: get_city_data_def)

lemma length_replace: "length (replace old new s) = length s"
  by (induction s) simp_all

lemma nth_replace:
  "i < length s \<Longrightarrow> replace old new s ! i = (if s ! i = old then new else s ! i)"
proof (induction s arbitrary: i)
  case Nil
  then show ?case by simp
next
  case (Cons c cs)
  then show ?case by (cases i) simp_all
qed






text \<open>
  Claim C7, as the script has it. For every city name, the weather fetcher builds a request
  URL that embeds the API key and a version of the name, of the same length, in which each
  space character (U+0020) is replaced with a plus sign and every other character, other
  whitespace included, is kept. It returns the parsed JSON body only when the response
  status is exactly 200, otherwise an absent result; an exception of the request is passed
  on.
\<close>

theorem get_city_data_url_and_result:
  "url api_key city_name =
     ''http://api.openweathermap.org/data/2.5/weather?appid='' @ api_key @ ''&q=''
       @ encoded_city_name city_name \<and>
   length (encoded_city_name city_name) = length city_name \<and>
   (\<forall>i < length city_name.
      encoded_city_name city_name ! i
        = (if city_name ! i = CHR '' '' then CHR ''+'' else city_name ! i)) \<and>
   (requests_get (url api_key city_name) w = (Inr r, w') \<longrightarrow>
      get_city_data api_key requests_get city_name w
        = (if status_code r = 200 then json r else Inr PNone, w')) \<and>
   (requests_get (url api_key city_name) w = (Inl e, w') \<longrightarrow>
      get_city_data api_key requests_get city_name w = (Inl e, w'))"
  by (simp add: url_def encoded_city_name_def length_replace nth_replace
      get_city_data_def)

theorem get_city_data_url_and_result_witness:
  "url ''KEY'' ''san francisco''
     = ''http://api.openweathermap.org/data/2.5/weather?appid=KEY&q=san+francisco'' \<and>
   encoded_city_name ''san francisco'' ! 3 = CHR ''+'' \<and>
   get_city_data ''KEY'' demo_requests_get ''cairns'' 0 = (Inr cairns_response, 1) \<and>
   get_city_data ''KEY'' demo_requests_get ''san francisco'' 1 = (Inr PNone, 2)"
proof -
  note t = get_city_data_url_and_result [of "''KEY''" "''san francisco''" demo_requests_get 1
      "\<lparr>status_code = 404,
        json = Inr (PDict [(''cod'', PStr ''404''), (''message'', PStr ''city not found'')])\<rparr>" 2]
  have u: "url ''KEY'' ''san francisco''
     = ''http://api.openweathermap.org/data/2.5/weather?appid=KEY&q=san+francisco''"
    by (simp add: url_def encoded_city_name_def)
  have "(3::nat) < length ''san francisco''" by simp
  with t have n: "encoded_city_name ''san francisco'' ! 3 = CHR ''+''"
    by simp
  have g: "get_city_data ''KEY'' demo_requests_get ''cairns'' 0 = (Inr cairns_response, 1)"
    using get_city_data_url_and_result [of "''KEY''" "''cairns''" demo_requests_get 0
      "\<lparr>status_code = 200, json = Inr cairns_response\<rparr>" 1]
    by (simp add: demo_requests_get_def)
  have "demo_requests_get (url ''KEY'' ''san francisco'') 1
     = (Inr \<lparr>status_code = 404,
            json = Inr (PDict [(''cod'', PStr ''404''), (''message'', PStr ''city not found'')])\<rparr>, 2)"
    by (simp add: demo_requests_get_def url_def encoded_city_name_def)
  with t have b: "get_city_data ''KEY'' demo_requests_get ''san francisco'' 1 = (Inr PNone, 2)"
    by simp
  show ?thesis by (rule conjI [OF u conjI [OF n conjI [OF g b]]])
qed

text \<open>
  Claim C7 as the spec words it has the whitespace of the name replaced with plus signs.
  A tab is whitespace, and the script keeps it: the name it sends differs from the name
  with its whitespace replaced.
\<close>

theorem encoded_city_name_keeps_tab:
  "is_whitespace (CHR 0x09) \<and>
   encoded_city_name (''new'' @ [CHR 0x09] @ ''york'') = ''new'' @ [CHR 0x09] @ ''york'' \<and>
   encoded_city_name (''new'' @ [CHR 0x09] @ ''york'')
     \<noteq> whitespace_to_plus (''new'' @ [CHR 0x09] @ ''york'')"
  by (simp add: is_whitespace_def encoded_city_name_def whitespace_to_plus_def)

section \<open>Properties of the coordinate sampler and the city resolver\<close>

text \<open>The example generator keeps to the bounds it is given.\<close>

lemma demo_uniform_in_range:
  "low \<le> high \<Longrightarrow> x \<in> set (fst (demo_uniform low high n g)) \<Longrightarrow> low \<le> x \<and> x \<le> high"
  by (auto simp: demo_uniform_def)

text \<open>
  Claim C5. Every coordinate pair produced by the coordinate sampler satisfies latitude in
  [-90, 90] and longitude in [-180, 180], for any generator whose draws lie between the
  bounds it is called with: the script asks for latitudes between -90 and 90 and for
  longitudes between -180 and 180, and pairs them latitude first.
\<close>

theorem lat_lngs_in_range:
  assumes "\<forall>low high n g. low \<le> high \<longrightarrow> (\<forall>x \<in> set (fst (uniform low high n g)). low \<le> x \<and> x \<le> high)"
  shows "\<forall>(lat, lng) \<in> set (fst (lat_lngs uniform g)).
           -90 \<le> lat \<and> lat \<le> 90 \<and> -180 \<le> lng \<and> lng \<le> 180"
proof (clarify)
  fix lat lng
  assume m: "(lat, lng) \<in> set (fst (lat_lngs uniform g))"
  obtain lats g1 where l: "uniform (-90) 90 1500 g = (lats, g1)"
    by (cases "uniform (-90) 90 1500 g")
  obtain lngs g2 where n: "uniform (-180) 180 1500 g1 = (lngs, g2)"
    by (cases "uniform (-180) 180 1500 g1")
  from m l n have z: "(lat, lng) \<in> set (zip lats lngs)"
    by (simp add: lat_lngs_def)
  from z have "lat \<in> set (fst (uniform (-90) 90 1500 g))"
    using l by (auto dest: set_zip_leftD)
  moreover have "(-90::real) \<le> 90" by simp
  ultimately have a: "-90 \<le> lat \<and> lat \<le> 90"
    using assms by blast
  from z have "lng \<in> set (fst (uniform (-180) 180 1500 g1))"
    using n by (auto dest: set_zip_rightD)
  moreover have "(-180::real) \<le> 180" by simp
  ultimately have b: "-180 \<le> lng \<and> lng \<le> 180"
    using assms by blast
  from a b show "-90 \<le> lat \<and> lat \<le> 90 \<and> -180 \<le> lng \<and> lng \<le> 180"
    by simp
qed


theorem lat_lngs_in_range_witness:
  "fst (lat_lngs demo_uniform 0) ! 7 = (0, 0) \<and>
   (case fst (lat_lngs demo_uniform 0) ! 7 of
      (lat, lng) \<Rightarrow> -90 \<le> lat \<and> lat \<le> 90 \<and> -180 \<le> lng \<and> lng \<le> 180)"
proof -
  have h: "\<forall>low high n g. low \<le> high \<longrightarrow>
      (\<forall>x \<in> set (fst (demo_uniform low high n g)). low \<le> x \<and> x \<le> high)"
    using demo_uniform_in_range by blast
  have len: "length (fst (lat_lngs demo_uniform 0)) = 1500"
    by (simp add: lat_lngs_def demo_uniform_def)
  have v: "fst (lat_lngs demo_uniform 0) ! 7 = (0, 0)"
    by (simp add: lat_lngs_def demo_uniform_def)
  have "fst (lat_lngs demo_uniform 0) ! 7 \<in> set (fst (lat_lngs demo_uniform 0))"
    using len by (intro nth_mem) simp
  with lat_lngs_in_range [where uniform = demo_uniform and g = 0, OF h]
  have c: "case fst (lat_lngs demo_uniform 0) ! 7 of
      (lat, lng) \<Rightarrow> -90 \<le> lat \<and> lat \<le> 90 \<and> -180 \<le> lng \<and> lng \<le> 180"
    by (rule bspec)
  show ?thesis by (rule conjI [OF v c])
qed

text \<open>
  The resolver loop keeps a list without repetition free of repetition, and the names it
  ends with are the names it started with and the nearest city of every pair.
\<close>

lemma identify_cities_distinct:
  "distinct cities \<Longrightarrow> distinct (identify_cities nearest_city_name cities pairs)"
  by (induction pairs arbitrary: cities) (simp_all add: Let_def)

lemma set_identify_cities:
  "set (identify_cities nearest_city_name cities pairs)
     = set cities \<union> (\<lambda>lat_lng. nearest_city_name (fst lat_lng) (snd lat_lng)) ` set pairs"
  by (induction pairs arbitrary: cities) (auto simp: Let_def)

text \<open>
  Claim C4. After the city-resolution stage, the accumulated city list contains no repeated
  city name: for any two distinct positions in the list, the names differ.
\<close>

theorem identify_cities_no_repeated_name:
  assumes "i < length (identify_cities nearest_city_name [] pairs)"
    and "j < length (identify_cities nearest_city_name [] pairs)"
    and "i \<noteq> j"
  shows "identify_cities nearest_city_name [] pairs ! i
           \<noteq> identify_cities nearest_city_name [] pairs ! j"
proof -
  have "distinct (identify_cities nearest_city_name [] pairs)"
    by (rule identify_cities_distinct) simp
  with assms show ?thesis
    by (simp add: nth_eq_iff_index_eq)
qed

theorem identify_cities_no_repeated_name_witness:
  "identify_cities demo_nearest_city_name [] [(-16.92, 145.77), (59.91, 10.75), (-33.87, 151.21)]
     = [''cairns'', ''oslo''] \<and>
   identify_cities demo_nearest_city_name [] [(-16.92, 145.77), (59.91, 10.75), (-33.87, 151.21)] ! 0
     \<noteq> identify_cities demo_nearest_city_name [] [(-16.92, 145.77), (59.91, 10.75), (-33.87, 151.21)] ! 1"
proof -
  have v: "identify_cities demo_nearest_city_name [] [(-16.92, 145.77), (59.91, 10.75), (-33.87, 151.21)]
     = [''cairns'', ''oslo'']"
    by (simp add: demo_nearest_city_name_def)
  have i: "0 < length (identify_cities demo_nearest_city_name []
      [(-16.92, 145.77), (59.91, 10.75), (-33.87, 151.21)])"
    unfolding v by simp
  have j: "1 < length (identify_cities demo_nearest_city_name []
      [(-16.92, 145.77), (59.91, 10.75), (-33.87, 151.21)])"
    unfolding v by simp
  have n: "(0::nat) \<noteq> 1" by simp
  show ?thesis
    by (rule conjI [OF v identify_cities_no_repeated_name [OF i j n]])
qed

end
